theory Spec2Isabelle
  imports Main "HOL-Library.Word"
begin

unbundle bit_operations_syntax

section \<open>The ssr RAID-1 driver (ssr.c) as a state-passing model\<close>

text \<open>
  The driver keeps no data of its own: it works on bios, on page frames and on the two
  physical disks \<open>/dev/vdb\<close> and \<open>/dev/vdc\<close>. The model makes these explicit:
  page frames and disks are functions from an offset (a byte address) to a byte, bios and
  their segments are records, and every driver function takes the kernel state and returns
  the new one. Sector numbers and lengths are \<open>nat\<close>: no claim below depends on the width
  of \<open>sector_t\<close> or \<open>size_t\<close>.
\<close>

type_synonym byte = "8 word"
type_synonym u32 = "32 word"

subsection \<open>crc32 (linux/crc32.h)\<close>

text \<open>
  \<open>crc32(seed, p, len)\<close> is the kernel's little-endian CRC-32 (\<open>crc32_le\<close> of lib/crc32.c);
  it is a library routine the driver calls, not part of ssr.c. It is modelled bit by bit
  after the reference loop
  \<^verbatim>\<open>crc ^= *p++; for (i = 0; i < 8; i++) crc = (crc >> 1) ^ ((crc & 1) ? CRC32_POLY_LE : 0);\<close>
  with no inversion of the seed and none of the result.
\<close>

definition CRC32_POLY_LE :: u32 where
  "CRC32_POLY_LE = 0xEDB88320"

definition crc32_shift :: "u32 \<Rightarrow> u32" where
  "crc32_shift crc = drop_bit 1 crc XOR (if crc AND 1 \<noteq> 0 then CRC32_POLY_LE else 0)"

definition crc32_byte :: "u32 \<Rightarrow> byte \<Rightarrow> u32" where
  "crc32_byte crc b = (crc32_shift ^^ 8) (crc XOR ucast b)"

definition crc32 :: "u32 \<Rightarrow> byte list \<Rightarrow> u32" where
  "crc32 seed p = foldl crc32_byte seed p"

subsection \<open>Memory, disks and bios\<close>

text \<open>
  \<open>bytes_at m off n\<close> are the \<open>n\<close> bytes of \<open>m\<close> from offset \<open>off\<close> on;
  \<open>memcpy m off bs\<close> is \<open>m\<close> after the bytes \<open>bs\<close> have been stored from offset \<open>off\<close> on.
  The source bytes of a copy are read before the destination is written, so a copy of a
  region onto itself (which ssr.c performs twice) leaves it as it is.
\<close>

definition bytes_at :: "(nat \<Rightarrow> byte) \<Rightarrow> nat \<Rightarrow> nat \<Rightarrow> byte list" where
  "bytes_at m off n = map (\<lambda>i. m (off + i)) [0..<n]"

definition memcpy :: "(nat \<Rightarrow> byte) \<Rightarrow> nat \<Rightarrow> byte list \<Rightarrow> (nat \<Rightarrow> byte)" where
  "memcpy m off bs = (\<lambda>i. if off \<le> i \<and> i < off + length bs then bs ! (i - off) else m i)"

text \<open>A segment of a bio: a page frame (by number), a length and an offset in the page.\<close>

record bio_vec =
  bv_page :: nat
  bv_len :: nat
  bv_offset :: nat

text \<open>The two physical disks, \<open>phys_bdev_vdb->bd_disk\<close> and \<open>phys_bdev_vdc->bd_disk\<close>.\<close>

datatype gendisk = VDB | VDC

text \<open>
  The fields of \<open>struct bio\<close> the driver and the block layer routines it calls read or
  write. \<open>bi_sector\<close> and \<open>bi_size\<close> are \<open>bi_iter.bi_sector\<close> (in units of 512 bytes)
  and \<open>bi_iter.bi_size\<close> (the bytes still to transfer); the iterator of a bio stands at
  the start of \<open>bi_io_vec\<close>. \<open>bi_disk\<close> is \<open>None\<close> on a bio that has not been directed to
  a physical disk. \<open>bi_vcnt\<close> counts the entries of \<open>bi_io_vec\<close> the bio owns (it is 0 on a
  clone, which borrows the vector of another bio), \<open>bi_max_vecs\<close> is the room \<open>bio_alloc\<close>
  gave it. An entry of \<open>bi_io_vec\<close> lies within one page.
\<close>

record bio =
  bi_disk :: "gendisk option"
  bi_opf :: nat
  bi_status :: nat
  bi_sector :: nat
  bi_size :: nat
  bi_vcnt :: nat
  bi_max_vecs :: nat
  bi_io_vec :: "bio_vec list"

text \<open>The block layer counts sectors of 512 bytes (\<open>SECTOR_SIZE\<close> of linux/blkdev.h).\<close>

definition SECTOR_SIZE :: nat where
  "SECTOR_SIZE = 512"

definition REQ_OP_READ :: nat where
  "REQ_OP_READ = 0"

definition REQ_OP_WRITE :: nat where
  "REQ_OP_WRITE = 1"

definition BLK_STS_OK :: nat where
  "BLK_STS_OK = 0"

definition BLK_STS_IOERR :: nat where
  "BLK_STS_IOERR = 10"

definition BLK_QC_T_NONE :: int where
  "BLK_QC_T_NONE = - 1"

definition BLK_STS_RESOURCE :: int where
  "BLK_STS_RESOURCE = 9"

definition ENOMEM :: int where
  "ENOMEM = 12"

text \<open>\<open>bio_data_dir\<close>: \<open>op_is_write(bio_op(bio)) ? WRITE : READ\<close>, where a write is an odd operation code.\<close>

definition bio_data_dir :: "bio \<Rightarrow> nat" where
  "bio_data_dir b = (if odd (bi_opf b) then REQ_OP_WRITE else REQ_OP_READ)"

text \<open>
  The segments \<open>bio_for_each_segment\<close> visits: entry after entry of \<open>bi_io_vec\<close>, each cut
  to the bytes still to transfer, until \<open>bi_size\<close> bytes are covered. A bio with
  \<open>bi_size = 0\<close> has no segment. (A bio whose vector ends before \<open>bi_size\<close> is covered is
  malformed; the iteration is taken to end with the vector.)
\<close>

fun bio_segments :: "nat \<Rightarrow> bio_vec list \<Rightarrow> bio_vec list" where
  "bio_segments sz [] = []"
| "bio_segments sz (bv # bvs) =
     (if sz = 0 then []
      else bv\<lparr>bv_len := min sz (bv_len bv)\<rparr> # bio_segments (sz - min sz (bv_len bv)) bvs)"

text \<open>\<open>struct ssr_work\<close>; \<open>buffer_from_up\<close> is a page frame and an offset in it.\<close>

record ssr_work =
  buffer_from_up :: "nat \<times> nat"
  bio_from_up :: bio
  data_bio_from_down :: bio
  crc32_bio_from_down :: bio

text \<open>
  The kernel state the driver acts on: the page frames, the contents of the two physical
  disks, the work items queued on \<open>ssr_wq\<close> and not yet run, and the \<open>bi_status\<close> of every
  bio handed to \<open>bio_endio\<close>, in order.
\<close>

record kstate =
  mem :: "nat \<Rightarrow> nat \<Rightarrow> byte"
  vdb :: "nat \<Rightarrow> byte"
  vdc :: "nat \<Rightarrow> byte"
  ssr_wq :: "ssr_work list"
  completed :: "nat list"

text \<open>
  A call either returns a value, or the kernel faults in it and the call never returns:
  \<open>__free_page\<close> dereferences its argument, so it faults on \<open>NULL\<close>, and what it does
  with a pointer that was never assigned is undefined. Both outcomes carry the state
  reached.
\<close>

datatype fault = FreeNullPage | FreeUnassignedPage

datatype 'a outcome = Returned 'a kstate | Faulted fault kstate

fun state_of :: "'a outcome \<Rightarrow> kstate" where
  "state_of (Returned r st) = st"
| "state_of (Faulted f st) = st"

fun returned :: "'a outcome \<Rightarrow> 'a option" where
  "returned (Returned r st) = Some r"
| "returned (Faulted f st) = None"

definition bio_endio :: "bio \<Rightarrow> kstate \<Rightarrow> kstate" where
  "bio_endio b st = st\<lparr>completed := completed st @ [bi_status b]\<rparr>"

definition queue_work :: "ssr_work \<Rightarrow> kstate \<Rightarrow> kstate" where
  "queue_work w st = st\<lparr>ssr_wq := ssr_wq st @ [w]\<rparr>"

text \<open>
  \<open>bio_alloc(gfp, nr_iovecs)\<close>: an empty bio with room for \<open>nr_iovecs\<close> entries.
  \<open>bio_add_page\<close>: the page is appended unless the bio is full, in which case nothing is
  added (and 0 returned, which the driver ignores); a fresh bio has no entry to merge the
  page into.
\<close>

definition bio_alloc :: "nat \<Rightarrow> bio" where
  "bio_alloc nr_iovecs =
     \<lparr>bi_disk = None, bi_opf = 0, bi_status = BLK_STS_OK, bi_sector = 0, bi_size = 0,
      bi_vcnt = 0, bi_max_vecs = nr_iovecs, bi_io_vec = []\<rparr>"

definition bio_add_page :: "bio \<Rightarrow> nat \<Rightarrow> nat \<Rightarrow> nat \<Rightarrow> bio" where
  "bio_add_page b page len offset =
     (if bi_max_vecs b \<le> bi_vcnt b then b
      else b\<lparr>bi_io_vec := bi_io_vec b @ [\<lparr>bv_page = page, bv_len = len, bv_offset = offset\<rparr>],
             bi_vcnt := bi_vcnt b + 1,
             bi_size := bi_size b + len\<rparr>)"

text \<open>
  \<open>submit_bio_wait\<close> (block layer): the bio is carried out on the disk \<open>bi_disk\<close> names,
  from byte \<open>bi_sector * 512\<close> on, segment after segment. A read fills the segments'
  pages from the disk, a write stores them on the disk. The driver ignores its result.
  The disks are taken to be long enough for every transfer.
\<close>

fun bio_transfer :: "gendisk \<Rightarrow> nat \<Rightarrow> nat \<Rightarrow> bio_vec list \<Rightarrow> kstate \<Rightarrow> kstate" where
  "bio_transfer d opf pos [] st = st"
| "bio_transfer d opf pos (bv # bvs) st =
     (let dsk = (case d of VDB \<Rightarrow> vdb st | VDC \<Rightarrow> vdc st);
          st' =
            (if opf = REQ_OP_READ then
               st\<lparr>mem := (mem st)(bv_page bv :=
                     memcpy (mem st (bv_page bv)) (bv_offset bv) (bytes_at dsk pos (bv_len bv)))\<rparr>
             else if opf = REQ_OP_WRITE then
               (let dsk' = memcpy dsk pos (bytes_at (mem st (bv_page bv)) (bv_offset bv) (bv_len bv))
                in case d of VDB \<Rightarrow> st\<lparr>vdb := dsk'\<rparr> | VDC \<Rightarrow> st\<lparr>vdc := dsk'\<rparr>)
             else st)
      in bio_transfer d opf (pos + bv_len bv) bvs st')"

definition submit_bio_wait :: "bio \<Rightarrow> kstate \<Rightarrow> kstate" where
  "submit_bio_wait b st =
     (case bi_disk b of
        None \<Rightarrow> st
      | Some d \<Rightarrow>
          bio_transfer d (bi_opf b) (bi_sector b * SECTOR_SIZE)
            (bio_segments (bi_size b) (bi_io_vec b)) st)"

subsection \<open>process_device\<close>

text \<open>
  The loop of \<open>process_device\<close> over the segments of \<open>data_bio_from_down\<close>, with the entry
  of \<open>crc32_bio_from_down\<close> at the same position of the iterator (\<open>bio_iter_iovec\<close>), of
  which only the page and the offset are used. \<open>data_buffer\<close>, \<open>crc32_buffer\<close> and, on a
  read, \<open>buffer_from_up\<close> are mappings of page frames; \<open>buffer_from_up\<close> maps
  \<open>data_bvec.bv_page\<close>, the same frame as \<open>data_buffer\<close>. A mismatch of the two checksums
  leaves the function (the \<open>return\<close> of line 112); \<open>sz\<close> is the local \<open>size\<close>. The loop
  ends with the segments of the data bio; \<open>ssr_submit_bio\<close> gives both bios the same
  entries.
\<close>

fun process_segments :: "nat \<Rightarrow> bio_vec list \<Rightarrow> bio_vec list \<Rightarrow> (nat \<Rightarrow> nat \<Rightarrow> byte) \<Rightarrow> (nat \<Rightarrow> nat \<Rightarrow> byte)" where
  "process_segments dir (data_bvec # ds) (crc32_bvec # cs) m =
     (let sz = bv_len data_bvec;
          data_offset = bv_offset data_bvec;
          crc32_offset = bv_offset crc32_bvec;
          data_buffer = bv_page data_bvec;
          crc32_buffer = bv_page crc32_bvec;
          crc_vdb = crc32 0 (bytes_at (m data_buffer) data_offset sz);
          crc_vdc = crc32 0 (bytes_at (m crc32_buffer) crc32_offset sz)
      in if crc_vdb \<noteq> crc_vdc then m
         else if dir = REQ_OP_READ then
           (let buffer_from_up = bv_page data_bvec;
                m1 = m(buffer_from_up :=
                       memcpy (m buffer_from_up) data_offset (bytes_at (m data_buffer) data_offset sz));
                m2 = m1(buffer_from_up :=
                       memcpy (m1 buffer_from_up) crc32_offset (bytes_at (m1 crc32_buffer) crc32_offset sz))
            in process_segments dir ds cs m2)
         else if dir = REQ_OP_WRITE then
           (let m1 = m(data_buffer :=
                       memcpy (m data_buffer) data_offset (bytes_at (m data_buffer) data_offset sz));
                m2 = m1(crc32_buffer :=
                       memcpy (m1 crc32_buffer) crc32_offset (bytes_at (m1 data_buffer) crc32_offset sz))
            in process_segments dir ds cs m2)
         else process_segments dir ds cs m)"
| "process_segments dir [] cs m = m"
| "process_segments dir ds [] m = m"

definition process_device :: "bio \<Rightarrow> bio \<Rightarrow> bio \<Rightarrow> kstate \<Rightarrow> kstate" where
  "process_device bio_up data_bio crc32_bio st =
     st\<lparr>mem := process_segments (bio_data_dir bio_up)
                  (bio_segments (bi_size data_bio) (bi_io_vec data_bio)) (bi_io_vec crc32_bio) (mem st)\<rparr>"

subsection \<open>ssr_handle_requests\<close>

definition ssr_handle_requests :: "ssr_work \<Rightarrow> kstate \<Rightarrow> kstate" where
  "ssr_handle_requests ssrwork st =
     (let bio_up = bio_from_up ssrwork;
          data_bio = (data_bio_from_down ssrwork)\<lparr>bi_disk := Some VDB\<rparr>;
          crc32_bio = (crc32_bio_from_down ssrwork)\<lparr>bi_disk := Some VDB\<rparr>;
          st1 = process_device bio_up data_bio crc32_bio st;
          data_bio = data_bio\<lparr>bi_disk := Some VDC\<rparr>;
          crc32_bio = crc32_bio\<lparr>bi_disk := Some VDC\<rparr>;
          st2 = process_device bio_up data_bio crc32_bio st1;
          st3 = submit_bio_wait crc32_bio st2;
          st4 = submit_bio_wait data_bio st3
      in bio_endio bio_up st4)"

subsection \<open>ssr_submit_bio\<close>

text \<open>
  The outcome of the five allocations of \<open>ssr_submit_bio\<close>: whether the two
  \<open>bio_alloc\<close> and the \<open>kmalloc\<close> succeed, and which page frame each \<open>alloc_page\<close> hands
  out (\<open>None\<close>: it fails). A page frame comes with whatever bytes the memory holds there.
\<close>

record allocs =
  data_bio_alloc :: bool
  crc32_bio_alloc :: bool
  data_page_alloc :: "nat option"
  crc32_page_alloc :: "nat option"
  ssrwork_alloc :: bool

text \<open>
  Every path through the body of the segment loop ends in \<open>return\<close> or in a \<open>goto\<close> to the
  labels behind the loop, so the loop is a case distinction on the first segment. The
  labels, from \<open>ssrwork_failed\<close> and \<open>crc32_page_fail\<close> down to \<open>out\<close>:
  \<^item> \<open>goto out\<close> and \<open>goto crc32_bio_fail\<close> (a \<open>bio_alloc\<close> failed) and
    \<open>goto data_page_fail\<close> (the first \<open>alloc_page\<close> failed) end in
    \<open>bio_endio(bio_from_up); return ret\<close>;
  \<^item> \<open>goto ssrwork_failed\<close> (the \<open>kmalloc\<close> failed) frees the checksum page and ends
    likewise;
  \<^item> \<open>goto crc32_page_fail\<close> (the second \<open>alloc_page\<close> failed) runs
    \<open>__free_page(crc32_page)\<close> with \<open>crc32_page == NULL\<close>;
  \<^item> a bio with no segment never enters the loop and falls through to
    \<open>__free_page(crc32_page)\<close> with \<open>crc32_page\<close> never assigned.
  The bios and pages that are freed or leaked are not part of the state.
\<close>

definition ssr_submit_bio :: "allocs \<Rightarrow> bio \<Rightarrow> kstate \<Rightarrow> int outcome" where
  "ssr_submit_bio a bio_up st =
     (let dir = bio_data_dir bio_up in
      if \<not> data_bio_alloc a then Returned BLK_STS_RESOURCE (bio_endio bio_up st)
      else if \<not> crc32_bio_alloc a then Returned BLK_STS_RESOURCE (bio_endio bio_up st)
      else
        (let data_bio = bio_alloc (bi_vcnt bio_up);
             crc32_bio = bio_alloc (bi_vcnt bio_up)
         in case bio_segments (bi_size bio_up) (bi_io_vec bio_up) of
              [] \<Rightarrow> Faulted FreeUnassignedPage st
            | bvec # rest \<Rightarrow>
                (let sector = bi_sector bio_up;
                     offset = bv_offset bvec;
                     len = bv_len bvec;
                     data_bio = data_bio\<lparr>bi_sector := sector\<rparr>;
                     crc32_bio = crc32_bio\<lparr>bi_sector := sector\<rparr>;
                     data_bio = data_bio\<lparr>bi_opf := dir\<rparr>;
                     crc32_bio = crc32_bio\<lparr>bi_opf := dir\<rparr>
                 in case data_page_alloc a of
                      None \<Rightarrow> Returned BLK_STS_RESOURCE (bio_endio bio_up st)
                    | Some data_page \<Rightarrow>
                        (case crc32_page_alloc a of
                           None \<Rightarrow> Faulted FreeNullPage st
                         | Some crc32_page \<Rightarrow>
                             (let data_bio = bio_add_page data_bio data_page len offset;
                                  crc32_bio = bio_add_page crc32_bio crc32_page len offset
                              in if \<not> ssrwork_alloc a
                                 then Returned BLK_STS_RESOURCE (bio_endio bio_up st)
                                 else Returned BLK_QC_T_NONE
                                        (queue_work
                                           \<lparr>buffer_from_up = (bv_page bvec, offset),
                                            bio_from_up = bio_up,
                                            data_bio_from_down = data_bio,
                                            crc32_bio_from_down = crc32_bio\<rparr> st))))))"

subsection \<open>The worker\<close>

text \<open>
  \<open>ssr_wq\<close> is a single-threaded workqueue: its worker takes the oldest queued item and
  runs \<open>ssr_handle_requests\<close> on it to the end. \<open>ssr_request\<close> is one request from
  submission to the end of its work item.
\<close>

definition run_work :: "kstate \<Rightarrow> kstate" where
  "run_work st =
     (case ssr_wq st of
        [] \<Rightarrow> st
      | w # ws \<Rightarrow> ssr_handle_requests w (st\<lparr>ssr_wq := ws\<rparr>))"

definition ssr_request :: "allocs \<Rightarrow> bio \<Rightarrow> kstate \<Rightarrow> int outcome" where
  "ssr_request a bio_up st =
     (case ssr_submit_bio a bio_up st of
        Returned r st' \<Rightarrow> Returned r (run_work st')
      | Faulted f st' \<Rightarrow> Faulted f st')"

text \<open>
  A sequence of requests, each run to its end before the next is submitted; a fault ends
  the sequence.
\<close>

fun ssr_requests :: "(allocs \<times> bio) list \<Rightarrow> kstate \<Rightarrow> unit outcome" where
  "ssr_requests [] st = Returned () st"
| "ssr_requests ((a, bio_up) # rs) st =
     (case ssr_request a bio_up st of
        Returned r st' \<Rightarrow> ssr_requests rs st'
      | Faulted f st' \<Rightarrow> Faulted f st')"

subsection \<open>create_block_device and the way of a bio to ssr_submit_bio\<close>

text \<open>
  Of \<open>struct logical_block_dev\<close> the model keeps whether the request queue exists, the
  gendisk (given by the capacity set for it, in sectors) and the size. The macros
  \<open>LOGICAL_DISK_SIZE\<close> and \<open>LOGICAL_DISK_SECTORS\<close> come from ssr.h and are parameters, as
  are the outcomes of \<open>blk_alloc_queue\<close> and \<open>alloc_disk\<close>.
\<close>

record logical_block_dev =
  dev_queue :: bool
  dev_gd :: "nat option"
  dev_size :: nat

definition create_block_device ::
    "nat \<Rightarrow> nat \<Rightarrow> bool \<Rightarrow> bool \<Rightarrow> logical_block_dev \<Rightarrow> int \<times> logical_block_dev" where
  "create_block_device LOGICAL_DISK_SIZE LOGICAL_DISK_SECTORS queue_alloc disk_alloc dev =
     (let dev = dev\<lparr>dev_size := LOGICAL_DISK_SIZE\<rparr> in
      if \<not> queue_alloc then (- ENOMEM, dev\<lparr>dev_queue := False\<rparr>)
      else
        (let dev = dev\<lparr>dev_queue := True\<rparr> in
         if \<not> disk_alloc then (- ENOMEM, dev\<lparr>dev_gd := None, dev_queue := False\<rparr>)
         else (0, dev\<lparr>dev_gd := Some LOGICAL_DISK_SECTORS\<rparr>)))"

definition get_capacity :: "logical_block_dev \<Rightarrow> nat" where
  "get_capacity dev = (case dev_gd dev of None \<Rightarrow> 0 | Some sectors \<Rightarrow> sectors)"

text \<open>
  The block layer's \<open>bio_sectors\<close> and \<open>bio_end_sector\<close>: the length of a bio in sectors
  and the first sector behind it.
\<close>

definition bio_sectors :: "bio \<Rightarrow> nat" where
  "bio_sectors b = bi_size b div SECTOR_SIZE"

definition bio_end_sector :: "bio \<Rightarrow> nat" where
  "bio_end_sector b = bi_sector b + bio_sectors b"

text \<open>
  A bio for the logical disk reaches the driver through the block layer:
  \<open>submit_bio\<close> runs \<open>submit_bio_checks\<close> and then calls the \<open>submit_bio\<close> operation of the
  disk, which \<open>ssr_block_ops\<close> sets to \<open>ssr_submit_bio\<close>. Of the checks the model has
  \<open>bio_check_eod\<close> against the capacity of the disk, which is what
  \<open>set_capacity(dev->gd, LOGICAL_DISK_SECTORS)\<close> in \<open>create_block_device\<close> feeds: a bio that
  fails it is ended at once with \<open>BLK_STS_IOERR\<close> and never handed to the driver.
  \<^verbatim>\<open>nr_sectors && maxsector && (nr_sectors > maxsector || bi_sector > maxsector - nr_sectors)\<close>
\<close>

definition bio_check_eod :: "bio \<Rightarrow> nat \<Rightarrow> bool" where
  "bio_check_eod b maxsector =
     (let nr_sectors = bio_sectors b
      in nr_sectors \<noteq> 0 \<and> maxsector \<noteq> 0 \<and>
         (maxsector < nr_sectors \<or> maxsector - nr_sectors < bi_sector b))"

definition submit_bio :: "logical_block_dev \<Rightarrow> allocs \<Rightarrow> bio \<Rightarrow> kstate \<Rightarrow> int outcome" where
  "submit_bio dev a b st =
     (if bio_check_eod b (get_capacity dev)
      then Returned BLK_QC_T_NONE (bio_endio (b\<lparr>bi_status := BLK_STS_IOERR\<rparr>) st)
      else ssr_submit_bio a b st)"

subsection \<open>Example requests and states\<close>

text \<open>
  A request for one sector: a single segment of 512 bytes at offset 0 of the caller's page
  \<open>p\<close>, with no error status set.
\<close>

definition sector_bio :: "nat \<Rightarrow> nat \<Rightarrow> nat \<Rightarrow> bio" where
  "sector_bio opf s p =
     \<lparr>bi_disk = None, bi_opf = opf, bi_status = BLK_STS_OK, bi_sector = s, bi_size = 512,
      bi_vcnt = 1, bi_max_vecs = 1,
      bi_io_vec = [\<lparr>bv_page = p, bv_len = 512, bv_offset = 0\<rparr>]\<rparr>"

text \<open>All five allocations succeed; \<open>alloc_page\<close> hands out the frames \<open>dp\<close> and \<open>cp\<close>.\<close>

definition allocs_ok :: "nat \<Rightarrow> nat \<Rightarrow> allocs" where
  "allocs_ok dp cp =
     \<lparr>data_bio_alloc = True, crc32_bio_alloc = True, data_page_alloc = Some dp,
      crc32_page_alloc = Some cp, ssrwork_alloc = True\<rparr>"

text \<open>The first \<open>alloc_page\<close> fails.\<close>

definition allocs_no_page :: allocs where
  "allocs_no_page =
     \<lparr>data_bio_alloc = True, crc32_bio_alloc = True, data_page_alloc = None,
      crc32_page_alloc = None, ssrwork_alloc = True\<rparr>"

text \<open>
  Two blank disks and blank memory, nothing queued, nothing completed. A blank sector is
  consistent with a blank checksum: the CRC-32 with seed 0 of zero bytes is 0.
\<close>

definition blank :: kstate where
  "blank = \<lparr>mem = (\<lambda>p i. 0), vdb = (\<lambda>i. 0), vdc = (\<lambda>i. 0), ssr_wq = [], completed = []\<rparr>"

text \<open>The caller's page 1 holds the payload \<open>0xAA\<close> in every byte.\<close>

definition with_payload :: "kstate \<Rightarrow> kstate" where
  "with_payload st = st\<lparr>mem := (mem st)(1 := (\<lambda>i. 0xAA))\<rparr>"

text \<open>Byte \<open>i\<close> of a disk is overwritten with \<open>0xAA\<close> behind the driver's back.\<close>

definition corrupt_vdb :: "nat \<Rightarrow> kstate \<Rightarrow> kstate" where
  "corrupt_vdb i st = st\<lparr>vdb := (vdb st)(i := 0xAA)\<rparr>"

definition corrupt_vdc :: "nat \<Rightarrow> kstate \<Rightarrow> kstate" where
  "corrupt_vdc i st = st\<lparr>vdc := (vdc st)(i := 0xAA)\<rparr>"

text \<open>
  The page frames 2 and 3, free for \<open>alloc_page\<close>, still hold the bytes \<open>0x55\<close> of an
  earlier use.
\<close>

definition stale_pages :: "kstate \<Rightarrow> kstate" where
  "stale_pages st = st\<lparr>mem := (mem st)(2 := (\<lambda>i. 0x55), 3 := (\<lambda>i. 0x55))\<rparr>"

text \<open>A request of two segments, the caller's pages 1 and 2, for the sectors \<open>s\<close> and \<open>s + 1\<close>.\<close>

definition two_segment_bio :: "nat \<Rightarrow> nat \<Rightarrow> bio" where
  "two_segment_bio opf s =
     \<lparr>bi_disk = None, bi_opf = opf, bi_status = BLK_STS_OK, bi_sector = s, bi_size = 1024,
      bi_vcnt = 2, bi_max_vecs = 2,
      bi_io_vec = [\<lparr>bv_page = 1, bv_len = 512, bv_offset = 0\<rparr>,
                   \<lparr>bv_page = 2, bv_len = 512, bv_offset = 0\<rparr>]\<rparr>"



section \<open>Properties of crc32\<close>

lemma xor_right_cancel: "(x XOR p = y XOR p) \<longleftrightarrow> (x = (y::u32))"
proof
  assume "x XOR p = y XOR p"
  then have "(x XOR p) XOR p = (y XOR p) XOR p" by simp
  then show "x = y" by (simp add: xor.assoc)
qed simp

lemma crc32_shift_top: "bit (crc32_shift c) 31 \<longleftrightarrow> bit c 0"
  by (auto simp add: crc32_shift_def CRC32_POLY_LE_def bit_simps and_one_eq bit_0 mod_2_eq_odd dest: bit_imp_le_length)

lemma crc32_shift_inj: "crc32_shift a = crc32_shift b \<Longrightarrow> a = b"
proof -
  assume eq: "crc32_shift a = crc32_shift b"
  have low: "bit a 0 \<longleftrightarrow> bit b 0" using eq crc32_shift_top[of a] crc32_shift_top[of b] by simp
  then have d: "drop_bit 1 a = drop_bit 1 b"
    using eq by (simp add: crc32_shift_def and_one_eq bit_0 mod_2_eq_odd xor_right_cancel split: if_splits)
  have "bit a (Suc n) \<longleftrightarrow> bit b (Suc n)" for n
  proof -
    have "bit (drop_bit 1 a) n = bit (drop_bit 1 b) n" using d by simp
    then show ?thesis by (simp add: bit_drop_bit_eq)
  qed
  with low have "bit a n \<longleftrightarrow> bit b n" for n
    by (cases n) simp_all
  then show "a = b"
    by (rule bit_eqI)
qed

lemma crc32_shift_pow_inj: "(crc32_shift ^^ n) a = (crc32_shift ^^ n) b \<Longrightarrow> a = b"
proof (induction n arbitrary: a b)
  case 0
  then show ?case by simp
next
  case (Suc n)
  from Suc.prems have "crc32_shift ((crc32_shift ^^ n) a) = crc32_shift ((crc32_shift ^^ n) b)"
    by simp
  then have "(crc32_shift ^^ n) a = (crc32_shift ^^ n) b" by (rule crc32_shift_inj)
  then show ?case by (rule Suc.IH)
qed

lemma ucast_byte_inj: "(ucast (a::byte) :: u32) = ucast b \<Longrightarrow> a = b"
proof -
  assume eq: "(ucast a :: u32) = ucast b"
  have "uint (ucast a :: u32) = uint a" "uint (ucast b :: u32) = uint b"
    by (simp_all add: uint_up_ucast is_up)
  with eq have "uint a = uint b" by simp
  then show "a = b" by (simp add: word_uint_eq_iff)
qed

lemma crc32_byte_inj_crc: "crc32_byte c b = crc32_byte c' b \<Longrightarrow> c = c'"
proof -
  assume "crc32_byte c b = crc32_byte c' b"
  then have "c XOR ucast b = c' XOR ucast b"
    unfolding crc32_byte_def by (rule crc32_shift_pow_inj)
  then show "c = c'" by (simp add: xor_right_cancel)
qed

lemma crc32_byte_inj_byte: "crc32_byte c b = crc32_byte c b' \<Longrightarrow> b = b'"
proof -
  assume "crc32_byte c b = crc32_byte c b'"
  then have "c XOR ucast b = c XOR ucast b'"
    unfolding crc32_byte_def by (rule crc32_shift_pow_inj)
  then have "ucast b XOR c = ucast b' XOR c" by (simp add: xor.commute)
  then have "(ucast b :: u32) = ucast b'" by (simp add: xor_right_cancel)
  then show "b = b'" by (rule ucast_byte_inj)
qed

lemma crc32_inj_seed: "crc32 c p = crc32 c' p \<Longrightarrow> c = c'"
proof (induction p arbitrary: c c')
  case Nil
  then show ?case by (simp add: crc32_def)
next
  case (Cons x xs)
  from Cons.prems have "crc32 (crc32_byte c x) xs = crc32 (crc32_byte c' x) xs"
    by (simp add: crc32_def)
  then have "crc32_byte c x = crc32_byte c' x" by (rule Cons.IH)
  then show ?case by (rule crc32_byte_inj_crc)
qed

lemma crc32_update: "i < length p \<Longrightarrow> crc32 c (p[i := b]) = crc32 c p \<Longrightarrow> b = p ! i"
proof (induction p arbitrary: c i)
  case Nil then show ?case by simp
next
  case (Cons x xs)
  show ?case
  proof (cases i)
    case 0
    with Cons.prems(2) have "crc32 (crc32_byte c b) xs = crc32 (crc32_byte c x) xs"
      by (simp add: crc32_def)
    then have "crc32_byte c b = crc32_byte c x" by (rule crc32_inj_seed)
    then have "b = x" by (rule crc32_byte_inj_byte)
    then show ?thesis using 0 by simp
  next
    case (Suc j)
    with Cons.prems have "j < length xs" "crc32 (crc32_byte c x) (xs[j := b]) = crc32 (crc32_byte c x) xs"
      by (simp_all add: crc32_def)
    then have "b = xs ! j" by (rule Cons.IH)
    then show ?thesis using Suc by simp
  qed
qed

lemma crc32_shift_0: "crc32_shift 0 = 0" by (simp add: crc32_shift_def)
lemma crc32_shift_pow_0: "(crc32_shift ^^ n) 0 = 0" by (induction n) (simp_all add: crc32_shift_0)
lemma crc32_byte_0: "crc32_byte 0 0 = 0" by (simp add: crc32_byte_def crc32_shift_pow_0)
lemma crc32_zeros: "crc32 0 (replicate n 0) = 0"
  by (induction n) (simp_all add: crc32_def crc32_byte_0)

lemma flip_byte: "k < 8 \<Longrightarrow> flip_bit k (b::byte) \<noteq> b"
proof
  assume k: "k < 8" and eq: "flip_bit k b = b"
  have "bit (flip_bit k b) k \<longleftrightarrow> \<not> bit b k"
    using k by (simp add: bit_flip_bit_iff)
  with eq show False by simp
qed


lemma crc32_empty: "crc32 seed [] = seed" by (simp add: crc32_def)












section \<open>Memory and transfers\<close>

lemma length_bytes_at: "length (bytes_at m off n) = n"
  by (simp add: bytes_at_def)

lemma nth_bytes_at: "i < n \<Longrightarrow> bytes_at m off n ! i = m (off + i)"
  by (simp add: bytes_at_def)

lemma memcpy_self: "memcpy m off (bytes_at m off n) = m"
  by (rule ext) (auto simp add: memcpy_def length_bytes_at nth_bytes_at)

lemma bytes_at_const: "bytes_at (\<lambda>i. c) off n = replicate n c"
  by (simp add: bytes_at_def map_replicate_const)

lemma memcpy_const: "memcpy (\<lambda>i. c) off (replicate n c) = (\<lambda>i. c)"
  by (rule ext) (auto simp add: memcpy_def)

lemma memcpy_memcpy:
  "length bs = length bs' \<Longrightarrow> memcpy (memcpy m off bs) off bs' = memcpy m off bs'"
  by (rule ext) (simp add: memcpy_def)

lemma bytes_at_memcpy: "bytes_at (memcpy m off bs) off (length bs) = bs"
  by (rule nth_equalityI) (simp_all add: length_bytes_at nth_bytes_at memcpy_def)

lemma const_upd: "(\<lambda>p. c)(x := c) = (\<lambda>p. c)"
  by (rule ext) simp

lemma bytes_at_upd:
  "j < n \<Longrightarrow> bytes_at (m(off + j := v)) off n = (bytes_at m off n)[j := v]"
  by (rule nth_equalityI) (auto simp add: length_bytes_at nth_bytes_at nth_list_update)

text \<open>A blank region with one byte changed no longer has the checksum 0 of a blank region.\<close>

lemma crc32_corrupt_blank:
  assumes "j < n" and "v \<noteq> 0"
  shows "crc32 0 (bytes_at ((\<lambda>i. 0)(off + j := v)) off n) \<noteq> 0"
proof
  assume zero: "crc32 0 (bytes_at ((\<lambda>i. 0)(off + j := v)) off n) = 0"
  have "bytes_at ((\<lambda>i. 0)(off + j := v)) off n = (replicate n 0)[j := v]"
    using assms(1) by (simp add: bytes_at_upd bytes_at_const)
  with zero have "crc32 0 ((replicate n 0)[j := v]) = crc32 0 (replicate n 0)"
    by (simp add: crc32_zeros)
  moreover have "j < length (replicate n (0::byte))"
    using assms(1) by simp
  ultimately have "v = replicate n 0 ! j"
    by (rule crc32_update [rotated])
  with assms show False by simp
qed






section \<open>What the driver's functions leave alone\<close>

lemma bio_transfer_wq: "ssr_wq (bio_transfer d opf pos bvs st) = ssr_wq st"
  by (induction bvs arbitrary: pos st) (simp_all add: Let_def split: gendisk.split)

lemma bio_transfer_completed: "completed (bio_transfer d opf pos bvs st) = completed st"
  by (induction bvs arbitrary: pos st) (simp_all add: Let_def split: gendisk.split)

lemma bio_transfer_VDC_vdb: "vdb (bio_transfer VDC opf pos bvs st) = vdb st"
  by (induction bvs arbitrary: pos st) (simp_all add: Let_def)

lemma bio_transfer_read_vdc: "vdc (bio_transfer d REQ_OP_READ pos bvs st) = vdc st"
  by (induction bvs arbitrary: pos st) (simp_all add: Let_def)

lemma process_device_vdb: "vdb (process_device b d c st) = vdb st"
  and process_device_vdc: "vdc (process_device b d c st) = vdc st"
  and process_device_wq: "ssr_wq (process_device b d c st) = ssr_wq st"
  and process_device_completed: "completed (process_device b d c st) = completed st"
  by (simp_all add: process_device_def)

lemma handle_vdb: "vdb (ssr_handle_requests w st) = vdb st"
  by (simp add: ssr_handle_requests_def Let_def bio_endio_def submit_bio_wait_def
      bio_transfer_VDC_vdb process_device_vdb)

lemma handle_wq: "ssr_wq (ssr_handle_requests w st) = ssr_wq st"
  by (simp add: ssr_handle_requests_def Let_def bio_endio_def submit_bio_wait_def
      bio_transfer_wq process_device_wq)

lemma handle_completed:
  "completed (ssr_handle_requests w st) = completed st @ [bi_status (bio_from_up w)]"
  by (simp add: ssr_handle_requests_def Let_def bio_endio_def submit_bio_wait_def
      bio_transfer_completed process_device_completed)

lemma handle_read_vdc:
  "bi_opf (data_bio_from_down w) = REQ_OP_READ \<Longrightarrow>
   bi_opf (crc32_bio_from_down w) = REQ_OP_READ \<Longrightarrow>
   vdc (ssr_handle_requests w st) = vdc st"
  by (simp add: ssr_handle_requests_def Let_def bio_endio_def submit_bio_wait_def
      bio_transfer_read_vdc process_device_vdc)

lemma bio_add_page_opf: "bi_opf (bio_add_page b page len offset) = bi_opf b"
  by (simp add: bio_add_page_def)

lemma submit_mem: "mem (state_of (ssr_submit_bio a b st)) = mem st"
  and submit_vdb: "vdb (state_of (ssr_submit_bio a b st)) = vdb st"
  and submit_vdc: "vdc (state_of (ssr_submit_bio a b st)) = vdc st"
  by (simp_all add: ssr_submit_bio_def Let_def bio_endio_def queue_work_def
      split: list.split option.split)

lemma request_vdb: "vdb (state_of (ssr_request a b st)) = vdb st"
proof (cases "ssr_submit_bio a b st")
  case (Returned r st')
  then have "vdb st' = vdb st" using submit_vdb [of a b st] by simp
  with Returned show ?thesis
    by (simp add: ssr_request_def run_work_def handle_vdb split: list.split)
next
  case (Faulted f st')
  then show ?thesis using submit_vdb [of a b st] by (simp add: ssr_request_def)
qed

lemma request_wq: "ssr_wq st = [] \<Longrightarrow> ssr_wq (state_of (ssr_request a b st)) = []"
  by (simp add: ssr_request_def run_work_def ssr_submit_bio_def Let_def bio_endio_def
      queue_work_def handle_wq split: list.split option.split)

lemma request_read_vdc:
  "ssr_wq st = [] \<Longrightarrow> bio_data_dir b = REQ_OP_READ \<Longrightarrow>
   vdc (state_of (ssr_request a b st)) = vdc st"
  by (simp add: ssr_request_def run_work_def ssr_submit_bio_def Let_def bio_endio_def
      queue_work_def bio_add_page_opf bio_alloc_def handle_read_vdc split: list.split option.split)

lemma requests_step:
  "state_of (ssr_requests ((a, b) # rs) st) =
     (case ssr_request a b st of
        Returned r st' \<Rightarrow> state_of (ssr_requests rs st')
      | Faulted f st' \<Rightarrow> st')"
  by (simp split: outcome.split)

text \<open>
  The check of \<open>process_device\<close>: when the two checksums differ the function returns at
  once, and they do differ whenever the data bytes are the bytes of the checksum buffer with
  one bit flipped.
\<close>

lemma process_segments_mismatch:
  "crc32 0 (bytes_at (m (bv_page d)) (bv_offset d) (bv_len d)) \<noteq>
   crc32 0 (bytes_at (m (bv_page c)) (bv_offset c) (bv_len d)) \<Longrightarrow>
   process_segments dir (d # ds) (c # cs) m = m"
  by (simp add: Let_def)

lemma process_segments_one_bit_off:
  assumes "i < bv_len d" and "k < 8"
    and "bytes_at (m (bv_page d)) (bv_offset d) (bv_len d) =
      (bytes_at (m (bv_page c)) (bv_offset c) (bv_len d))
        [i := flip_bit k (bytes_at (m (bv_page c)) (bv_offset c) (bv_len d) ! i)]"
  shows "process_segments dir (d # ds) (c # cs) m = m"
proof (rule process_segments_mismatch, rule notI)
  let ?C = "bytes_at (m (bv_page c)) (bv_offset c) (bv_len d)"
  assume "crc32 0 (bytes_at (m (bv_page d)) (bv_offset d) (bv_len d)) = crc32 0 ?C"
  with assms(3) have "crc32 0 (?C[i := flip_bit k (?C ! i)]) = crc32 0 ?C" by simp
  moreover have "i < length ?C" using assms(1) by (simp add: length_bytes_at)
  ultimately have "flip_bit k (?C ! i) = ?C ! i" by (rule crc32_update [rotated])
  with assms(2) show False by (simp add: flip_byte)
qed

lemmas run_defs =
  ssr_request_def run_work_def ssr_submit_bio_def Let_def bio_endio_def queue_work_def
  bio_alloc_def bio_add_page_def ssr_handle_requests_def process_device_def submit_bio_wait_def
  bio_data_dir_def REQ_OP_READ_def REQ_OP_WRITE_def SECTOR_SIZE_def BLK_STS_OK_def
  BLK_QC_T_NONE_def BLK_STS_RESOURCE_def

lemmas example_defs =
  sector_bio_def allocs_ok_def allocs_no_page_def blank_def with_payload_def corrupt_vdb_def
  corrupt_vdc_def stale_pages_def two_segment_bio_def

lemmas eval_simps =
  bytes_at_const memcpy_const const_upd fun_upd_idem

section \<open>The claims\<close>

text \<open>
  In the examples below a checksum is judged as README.md lays the disk out: the sector
  data first, the CRC-32 (seed 0) of each sector behind the data area. On a blank disk
  every sector is consistent (its checksum entry is 0, and so is the CRC-32 of its 512 zero
  bytes); a sector with one byte set to \<open>0xAA\<close> and a checksum entry left at 0 is not.
\<close>

subsection \<open>C1: a read repairs the mirror whose checksum fails\<close>

text \<open>
  Claim C1: when exactly one mirror's checksum of a sector fails, a read of the sector
  returns the data of the other mirror, and afterwards both mirrors hold the same data and
  checksum for the sector. The driver does neither. At the input below sector 2 is
  consistent on \<open>/dev/vdc\<close> and corrupt on \<open>/dev/vdb\<close>, and the caller's page 1 holds
  \<open>0xAA\<close>. The read completes with \<open>BLK_STS_OK\<close> and changes nothing else: the two disks
  still differ in byte 1024, and the caller's page still holds \<open>0xAA\<close>, not the zero bytes
  of the sector on \<open>/dev/vdc\<close>.
\<close>

theorem read_does_not_repair:
  "crc32 0 (bytes_at (vdc (with_payload (corrupt_vdb 1024 blank))) 1024 512) = 0 \<and>
   crc32 0 (bytes_at (vdb (with_payload (corrupt_vdb 1024 blank))) 1024 512) \<noteq> 0 \<and>
   vdb (with_payload (corrupt_vdb 1024 blank)) 1024 = 0xAA \<and>
   vdc (with_payload (corrupt_vdb 1024 blank)) 1024 = 0 \<and>
   mem (with_payload (corrupt_vdb 1024 blank)) 1 = (\<lambda>i. 0xAA) \<and>
   ssr_request (allocs_ok 2 3) (sector_bio REQ_OP_READ 2 1) (with_payload (corrupt_vdb 1024 blank)) =
     Returned BLK_QC_T_NONE ((with_payload (corrupt_vdb 1024 blank))\<lparr>completed := [BLK_STS_OK]\<rparr>)"
proof (intro conjI)
  show "crc32 0 (bytes_at (vdc (with_payload (corrupt_vdb 1024 blank))) 1024 512) = 0"
    by (simp add: example_defs bytes_at_const crc32_zeros)
  show "crc32 0 (bytes_at (vdb (with_payload (corrupt_vdb 1024 blank))) 1024 512) \<noteq> 0"
    using crc32_corrupt_blank [of 0 512 "0xAA" 1024] by (simp add: example_defs)
  show "ssr_request (allocs_ok 2 3) (sector_bio REQ_OP_READ 2 1) (with_payload (corrupt_vdb 1024 blank)) =
     Returned BLK_QC_T_NONE ((with_payload (corrupt_vdb 1024 blank))\<lparr>completed := [BLK_STS_OK]\<rparr>)"
    by (simp add: run_defs example_defs eval_simps)
qed (simp_all add: example_defs)

subsection \<open>C2: a read returns what was written\<close>

text \<open>
  Claim C2: after a write of the data D to a sector, a read of the sector returns D. In
  the driver the payload of a write never leaves the caller's page, and a read never
  stores into the caller's page. At the input below the caller writes page 1 (every byte
  \<open>0xAA\<close>) to sector 2 and then reads sector 2 into page 4 (every byte 0): both requests
  complete with \<open>BLK_STS_OK\<close>, and memory and disks are what they were; page 4 holds zero
  bytes, not D.
\<close>

theorem write_then_read_returns_the_old_buffer:
  "mem (with_payload blank) 1 = (\<lambda>i. 0xAA) \<and> mem (with_payload blank) 4 = (\<lambda>i. 0) \<and>
   ssr_request (allocs_ok 2 3) (sector_bio REQ_OP_WRITE 2 1) (with_payload blank) =
     Returned BLK_QC_T_NONE ((with_payload blank)\<lparr>completed := [BLK_STS_OK]\<rparr>) \<and>
   ssr_request (allocs_ok 5 6) (sector_bio REQ_OP_READ 2 4)
     (state_of (ssr_request (allocs_ok 2 3) (sector_bio REQ_OP_WRITE 2 1) (with_payload blank))) =
     Returned BLK_QC_T_NONE ((with_payload blank)\<lparr>completed := [BLK_STS_OK, BLK_STS_OK]\<rparr>)"
  by (simp add: run_defs example_defs eval_simps)

subsection \<open>C3: a write reaches both mirrors\<close>

text \<open>
  Claim C3: a write stores the caller's payload and its checksum on both mirrors. In the
  driver no function changes \<open>/dev/vdb\<close>: both bios are directed to \<open>/dev/vdc\<close> before
  they are submitted. What \<open>/dev/vdc\<close> receives is the content of the freshly allocated
  data page: a write of the payload \<open>0xAA\<close> to sector 2, with stale bytes \<open>0x55\<close> in the
  allocated pages, leaves \<open>0x55\<close> in the sector.
\<close>

theorem vdb_is_never_written:
  "vdb (state_of (ssr_submit_bio a b st)) = vdb st \<and> vdb (ssr_handle_requests w st) = vdb st \<and>
   vdb (state_of (ssr_request a b st)) = vdb st \<and>
   returned (ssr_request (allocs_ok 2 3) (sector_bio REQ_OP_WRITE 2 1) (stale_pages (with_payload blank))) =
     Some BLK_QC_T_NONE \<and>
   bytes_at (vdc (state_of (ssr_request (allocs_ok 2 3) (sector_bio REQ_OP_WRITE 2 1)
       (stale_pages (with_payload blank))))) 1024 512 = replicate 512 0x55"
proof (intro conjI)
  have "ssr_request (allocs_ok 2 3) (sector_bio REQ_OP_WRITE 2 1) (stale_pages (with_payload blank)) =
     Returned BLK_QC_T_NONE
       ((stale_pages (with_payload blank))
          \<lparr>vdc := memcpy (\<lambda>i. 0) 1024 (replicate 512 0x55), completed := [BLK_STS_OK]\<rparr>)"
    by (simp add: run_defs example_defs eval_simps memcpy_self memcpy_memcpy)
  then show "bytes_at (vdc (state_of (ssr_request (allocs_ok 2 3) (sector_bio REQ_OP_WRITE 2 1)
       (stale_pages (with_payload blank))))) 1024 512 = replicate 512 0x55"
    and "returned (ssr_request (allocs_ok 2 3) (sector_bio REQ_OP_WRITE 2 1) (stale_pages (with_payload blank))) =
     Some BLK_QC_T_NONE"
    using bytes_at_memcpy [of "\<lambda>i. 0" 1024 "replicate 512 0x55"] by simp_all
qed (simp_all add: submit_vdb handle_vdb request_vdb)

subsection \<open>C4: a read of a sector corrupt on both mirrors fails\<close>

text \<open>
  Claim C4: when the checksum of a sector fails on both mirrors, a read of the sector fails
  with an error, and no mirror is modified. The driver never sets \<open>bi_status\<close>: every
  request completes with the status it came with. At the input below sector 0 is corrupt on
  both disks; the read is queued and completes with \<open>BLK_STS_OK\<close>.
\<close>

theorem read_of_twice_corrupt_sector_succeeds:
  "crc32 0 (bytes_at (vdb (corrupt_vdc 0 (corrupt_vdb 0 blank))) 0 512) \<noteq> 0 \<and>
   crc32 0 (bytes_at (vdc (corrupt_vdc 0 (corrupt_vdb 0 blank))) 0 512) \<noteq> 0 \<and>
   returned (ssr_submit_bio (allocs_ok 2 3) (sector_bio REQ_OP_READ 0 1) (corrupt_vdc 0 (corrupt_vdb 0 blank))) =
     Some BLK_QC_T_NONE \<and>
   returned (ssr_request (allocs_ok 2 3) (sector_bio REQ_OP_READ 0 1) (corrupt_vdc 0 (corrupt_vdb 0 blank))) =
     Some BLK_QC_T_NONE \<and>
   completed (state_of (ssr_request (allocs_ok 2 3) (sector_bio REQ_OP_READ 0 1)
       (corrupt_vdc 0 (corrupt_vdb 0 blank)))) = [BLK_STS_OK]"
proof (intro conjI)
  show "crc32 0 (bytes_at (vdb (corrupt_vdc 0 (corrupt_vdb 0 blank))) 0 512) \<noteq> 0"
    using crc32_corrupt_blank [of 0 512 "0xAA" 0] by (simp add: example_defs)
  show "crc32 0 (bytes_at (vdc (corrupt_vdc 0 (corrupt_vdb 0 blank))) 0 512) \<noteq> 0"
    using crc32_corrupt_blank [of 0 512 "0xAA" 0] by (simp add: example_defs)
  show "returned (ssr_submit_bio (allocs_ok 2 3) (sector_bio REQ_OP_READ 0 1) (corrupt_vdc 0 (corrupt_vdb 0 blank))) =
     Some BLK_QC_T_NONE"
    by (simp add: ssr_submit_bio_def Let_def example_defs)
  show "returned (ssr_request (allocs_ok 2 3) (sector_bio REQ_OP_READ 0 1) (corrupt_vdc 0 (corrupt_vdb 0 blank))) =
     Some BLK_QC_T_NONE"
    by (simp add: ssr_request_def ssr_submit_bio_def Let_def example_defs)
  show "completed (state_of (ssr_request (allocs_ok 2 3) (sector_bio REQ_OP_READ 0 1)
       (corrupt_vdc 0 (corrupt_vdb 0 blank)))) = [BLK_STS_OK]"
    by (simp add: ssr_request_def run_work_def ssr_submit_bio_def Let_def queue_work_def
        handle_completed example_defs)
qed

subsection \<open>C5: data and checksum live at different offsets\<close>

text \<open>
  Claim C5: the data of sector \<open>s\<close> is accessed at byte \<open>512 * s\<close> and its checksum at
  the size of the data area plus \<open>4 * s\<close>. \<open>ssr_submit_bio\<close> gives the checksum bio the
  sector number of the data bio, and the length and offset of the same segment: for sector
  2 both bios cover the bytes from 1024 to 1535.
\<close>

theorem crc32_bio_targets_the_data_sector:
  "ssr_submit_bio (allocs_ok 2 3) (sector_bio REQ_OP_WRITE 2 1) blank =
     Returned BLK_QC_T_NONE
      (blank\<lparr>ssr_wq :=
        [\<lparr>buffer_from_up = (1, 0),
          bio_from_up = sector_bio REQ_OP_WRITE 2 1,
          data_bio_from_down =
            \<lparr>bi_disk = None, bi_opf = REQ_OP_WRITE, bi_status = BLK_STS_OK, bi_sector = 2,
             bi_size = 512, bi_vcnt = 1, bi_max_vecs = 1,
             bi_io_vec = [\<lparr>bv_page = 2, bv_len = 512, bv_offset = 0\<rparr>]\<rparr>,
          crc32_bio_from_down =
            \<lparr>bi_disk = None, bi_opf = REQ_OP_WRITE, bi_status = BLK_STS_OK, bi_sector = 2,
             bi_size = 512, bi_vcnt = 1, bi_max_vecs = 1,
             bi_io_vec = [\<lparr>bv_page = 3, bv_len = 512, bv_offset = 0\<rparr>]\<rparr>\<rparr>]\<rparr>)"
  by (simp add: run_defs example_defs)

subsection \<open>C6: requests beyond the capacity are rejected\<close>

text \<open>
  Claim C6: a request is checked against the capacity before anything is queued or any
  disk is accessed; a request of at least one sector that ends beyond the capacity fails at
  once with an error and reaches no mirror. \<open>ssr_submit_bio\<close> has no such check of its
  own: the driver sets the capacity of its disk in \<open>create_block_device\<close>, and the block
  layer checks every bio against it before it calls \<open>ssr_submit_bio\<close>. For the disk that
  a successful \<open>create_block_device\<close> leaves, with a capacity of at least one sector, such a
  request is completed with \<open>BLK_STS_IOERR\<close> in the submission itself, and work queue,
  memory and both disks stay as they are.
\<close>

theorem out_of_range_request_is_rejected:
  assumes "create_block_device disk_size disk_sectors queue_alloc disk_alloc dev0 = (0, dev)"
    and "0 < disk_sectors" and "0 < bio_sectors b" and "disk_sectors < bio_end_sector b"
  shows "submit_bio dev a b st =
      Returned BLK_QC_T_NONE (st\<lparr>completed := completed st @ [BLK_STS_IOERR]\<rparr>) \<and>
    BLK_STS_IOERR \<noteq> BLK_STS_OK \<and>
    ssr_wq (state_of (submit_bio dev a b st)) = ssr_wq st \<and>
    mem (state_of (submit_bio dev a b st)) = mem st \<and>
    vdb (state_of (submit_bio dev a b st)) = vdb st \<and>
    vdc (state_of (submit_bio dev a b st)) = vdc st"
proof -
  have cap: "get_capacity dev = disk_sectors"
    using assms(1)
    by (auto simp add: create_block_device_def get_capacity_def Let_def ENOMEM_def
        split: if_splits)
  have "bio_check_eod b disk_sectors"
    using assms(2-4) by (auto simp add: bio_check_eod_def bio_end_sector_def Let_def)
  with cap have "submit_bio dev a b st =
      Returned BLK_QC_T_NONE (st\<lparr>completed := completed st @ [BLK_STS_IOERR]\<rparr>)"
    by (simp add: submit_bio_def bio_endio_def)
  then show ?thesis
    by (simp add: BLK_STS_IOERR_def BLK_STS_OK_def)
qed

text \<open>Claim C6 at a write to sector 4 of a disk of 4 sectors.\<close>

theorem out_of_range_request_is_rejected_witness:
  "create_block_device 2048 4 True True \<lparr>dev_queue = False, dev_gd = None, dev_size = 0\<rparr> =
     (0, \<lparr>dev_queue = True, dev_gd = Some 4, dev_size = 2048\<rparr>) \<and>
   (0::nat) < 4 \<and> 0 < bio_sectors (sector_bio REQ_OP_WRITE 4 1) \<and>
   4 < bio_end_sector (sector_bio REQ_OP_WRITE 4 1) \<and>
   submit_bio \<lparr>dev_queue = True, dev_gd = Some 4, dev_size = 2048\<rparr> (allocs_ok 2 3)
       (sector_bio REQ_OP_WRITE 4 1) (stale_pages blank) =
     Returned BLK_QC_T_NONE ((stale_pages blank)\<lparr>completed := [BLK_STS_IOERR]\<rparr>) \<and>
   vdc (state_of (submit_bio \<lparr>dev_queue = True, dev_gd = Some 4, dev_size = 2048\<rparr> (allocs_ok 2 3)
       (sector_bio REQ_OP_WRITE 4 1) (stale_pages blank))) = vdc (stale_pages blank)"
proof -
  have c: "create_block_device 2048 4 True True \<lparr>dev_queue = False, dev_gd = None, dev_size = 0\<rparr> =
     (0, \<lparr>dev_queue = True, dev_gd = Some 4, dev_size = 2048\<rparr>)"
    by (simp add: create_block_device_def Let_def)
  have p: "(0::nat) < 4" by simp
  have n: "0 < bio_sectors (sector_bio REQ_OP_WRITE 4 1)"
    by (simp add: bio_sectors_def sector_bio_def SECTOR_SIZE_def)
  have e: "4 < bio_end_sector (sector_bio REQ_OP_WRITE 4 1)"
    by (simp add: bio_end_sector_def bio_sectors_def sector_bio_def SECTOR_SIZE_def)
  from out_of_range_request_is_rejected [OF c p n e, of "allocs_ok 2 3" "stale_pages blank"] c p n e
  show ?thesis by (simp add: stale_pages_def blank_def)
qed

subsection \<open>C7: the checksum and single bit flips\<close>


subsection \<open>C8: reads of healthy sectors write nothing\<close>

text \<open>
  Claim C8: a read of a sector whose checksums verify on both mirrors writes to no mirror,
  however often it is repeated. This holds for every read, whatever the disks hold: after
  any sequence of read requests, each run to its end, both disks are what they were.
\<close>

theorem read_requests_leave_the_disks:
  "ssr_wq st = [] \<Longrightarrow> \<forall>(a, b) \<in> set rs. bio_data_dir b = REQ_OP_READ \<Longrightarrow>
   vdb (state_of (ssr_requests rs st)) = vdb st \<and> vdc (state_of (ssr_requests rs st)) = vdc st"
proof (induction rs arbitrary: st)
  case Nil
  then show ?case by simp
next
  case (Cons r rs)
  obtain a b where r: "r = (a, b)" by (cases r)
  from Cons.prems r have rd: "bio_data_dir b = REQ_OP_READ" by simp
  have one: "vdb (state_of (ssr_request a b st)) = vdb st"
    "vdc (state_of (ssr_request a b st)) = vdc st"
    using Cons.prems(1) rd by (simp_all add: request_vdb request_read_vdc)
  show ?case
  proof (cases "ssr_request a b st")
    case (Returned x st')
    have "ssr_wq st' = []"
      using request_wq [OF Cons.prems(1), of a b] Returned by simp
    moreover have "\<forall>(a, b) \<in> set rs. bio_data_dir b = REQ_OP_READ"
      using Cons.prems(2) by simp
    ultimately have "vdb (state_of (ssr_requests rs st')) = vdb st' \<and>
        vdc (state_of (ssr_requests rs st')) = vdc st'"
      by (rule Cons.IH)
    with one Returned r show ?thesis by simp
  next
    case (Faulted f st')
    with one r show ?thesis by simp
  qed
qed

text \<open>
  Claim C8 at two reads of sector 2, with \<open>/dev/vdb\<close> corrupt in that sector and stale
  bytes in the pages that are allocated.
\<close>

theorem read_requests_leave_the_disks_witness:
  "ssr_wq (stale_pages (corrupt_vdb 1024 blank)) = [] \<and>
   bio_data_dir (sector_bio REQ_OP_READ 2 1) = REQ_OP_READ \<and>
   vdb (state_of (ssr_requests
       [(allocs_ok 2 3, sector_bio REQ_OP_READ 2 1), (allocs_ok 5 6, sector_bio REQ_OP_READ 2 1)]
       (stale_pages (corrupt_vdb 1024 blank)))) = vdb (stale_pages (corrupt_vdb 1024 blank)) \<and>
   vdc (state_of (ssr_requests
       [(allocs_ok 2 3, sector_bio REQ_OP_READ 2 1), (allocs_ok 5 6, sector_bio REQ_OP_READ 2 1)]
       (stale_pages (corrupt_vdb 1024 blank)))) = vdc (stale_pages (corrupt_vdb 1024 blank))"
proof -
  have q: "ssr_wq (stale_pages (corrupt_vdb 1024 blank)) = []"
    by (simp add: blank_def stale_pages_def corrupt_vdb_def)
  have r: "bio_data_dir (sector_bio REQ_OP_READ 2 1) = REQ_OP_READ"
    by (simp add: sector_bio_def bio_data_dir_def REQ_OP_READ_def)
  then have "\<forall>(a, b) \<in> set [(allocs_ok 2 3, sector_bio REQ_OP_READ 2 1), (allocs_ok 5 6, sector_bio REQ_OP_READ 2 1)].
      bio_data_dir b = REQ_OP_READ"
    by simp
  from read_requests_leave_the_disks [OF q this] q r show ?thesis by blast
qed

subsection \<open>C9: only the first segment of a request is handled\<close>

text \<open>
  Claim C9: for every bio with at least one segment, \<open>ssr_submit_bio\<close> queues exactly one
  work item and returns in the first iteration of its loop. The claim fails where an
  allocation fails: with no page from the first \<open>alloc_page\<close>, a bio of two segments is
  completed at once, \<open>BLK_STS_RESOURCE\<close> is returned and nothing is queued.
\<close>

theorem failed_allocation_queues_nothing:
  "bio_segments (bi_size (two_segment_bio REQ_OP_WRITE 0)) (bi_io_vec (two_segment_bio REQ_OP_WRITE 0)) =
     [\<lparr>bv_page = 1, bv_len = 512, bv_offset = 0\<rparr>, \<lparr>bv_page = 2, bv_len = 512, bv_offset = 0\<rparr>] \<and>
   ssr_submit_bio allocs_no_page (two_segment_bio REQ_OP_WRITE 0) blank =
     Returned BLK_STS_RESOURCE (blank\<lparr>completed := [BLK_STS_OK]\<rparr>) \<and>
   ssr_wq (state_of (ssr_submit_bio allocs_no_page (two_segment_bio REQ_OP_WRITE 0) blank)) = []"
  by (simp add: ssr_submit_bio_def Let_def bio_endio_def example_defs)

text \<open>
  Claim C9 as amended: for every bio with at least one segment, the first of them not
  empty, \<open>ssr_submit_bio\<close> looks at the first segment only. When all five allocations succeed and the bio owns its vector, it
  queues exactly one work item, made from the first segment, and returns
  \<open>BLK_QC_T_NONE\<close>; the request then has the effect of the request cut down to its first
  segment. When a \<open>bio_alloc\<close>, the first \<open>alloc_page\<close> or the \<open>kmalloc\<close> fails, it
  queues nothing, completes the bio and returns \<open>BLK_STS_RESOURCE\<close>. Nothing is said of a
  failure of the second \<open>alloc_page\<close>.
\<close>

theorem only_the_first_segment_is_submitted:
  assumes "bio_segments (bi_size b) (bi_io_vec b) = bvec # rest" and "0 < bv_len bvec"
  shows
   "(data_bio_alloc a \<and> crc32_bio_alloc a \<and> data_page_alloc a = Some dp \<and>
       crc32_page_alloc a = Some cp \<and> ssrwork_alloc a \<and> 0 < bi_vcnt b \<longrightarrow>
       ssr_submit_bio a b st =
         Returned BLK_QC_T_NONE
           (queue_work
             \<lparr>buffer_from_up = (bv_page bvec, bv_offset bvec),
              bio_from_up = b,
              data_bio_from_down =
                \<lparr>bi_disk = None, bi_opf = bio_data_dir b, bi_status = BLK_STS_OK,
                 bi_sector = bi_sector b, bi_size = bv_len bvec, bi_vcnt = 1,
                 bi_max_vecs = bi_vcnt b,
                 bi_io_vec = [\<lparr>bv_page = dp, bv_len = bv_len bvec, bv_offset = bv_offset bvec\<rparr>]\<rparr>,
              crc32_bio_from_down =
                \<lparr>bi_disk = None, bi_opf = bio_data_dir b, bi_status = BLK_STS_OK,
                 bi_sector = bi_sector b, bi_size = bv_len bvec, bi_vcnt = 1,
                 bi_max_vecs = bi_vcnt b,
                 bi_io_vec = [\<lparr>bv_page = cp, bv_len = bv_len bvec, bv_offset = bv_offset bvec\<rparr>]\<rparr>\<rparr>
             st) \<and>
       (ssr_wq st = [] \<longrightarrow>
          ssr_request a b st = ssr_request a (b\<lparr>bi_size := bv_len bvec, bi_io_vec := [bvec]\<rparr>) st)) \<and>
    (\<not> data_bio_alloc a \<or> \<not> crc32_bio_alloc a \<or> data_page_alloc a = None \<or>
       (crc32_page_alloc a \<noteq> None \<and> \<not> ssrwork_alloc a) \<longrightarrow>
       ssr_submit_bio a b st = Returned BLK_STS_RESOURCE (bio_endio b st))"
proof (intro conjI impI)
  assume ok: "data_bio_alloc a \<and> crc32_bio_alloc a \<and> data_page_alloc a = Some dp \<and>
       crc32_page_alloc a = Some cp \<and> ssrwork_alloc a \<and> 0 < bi_vcnt b"
  then show "ssr_submit_bio a b st =
         Returned BLK_QC_T_NONE
           (queue_work
             \<lparr>buffer_from_up = (bv_page bvec, bv_offset bvec),
              bio_from_up = b,
              data_bio_from_down =
                \<lparr>bi_disk = None, bi_opf = bio_data_dir b, bi_status = BLK_STS_OK,
                 bi_sector = bi_sector b, bi_size = bv_len bvec, bi_vcnt = 1,
                 bi_max_vecs = bi_vcnt b,
                 bi_io_vec = [\<lparr>bv_page = dp, bv_len = bv_len bvec, bv_offset = bv_offset bvec\<rparr>]\<rparr>,
              crc32_bio_from_down =
                \<lparr>bi_disk = None, bi_opf = bio_data_dir b, bi_status = BLK_STS_OK,
                 bi_sector = bi_sector b, bi_size = bv_len bvec, bi_vcnt = 1,
                 bi_max_vecs = bi_vcnt b,
                 bi_io_vec = [\<lparr>bv_page = cp, bv_len = bv_len bvec, bv_offset = bv_offset bvec\<rparr>]\<rparr>\<rparr>
             st)"
    using assms(1) by (simp add: ssr_submit_bio_def Let_def bio_alloc_def bio_add_page_def)
  assume q: "ssr_wq st = []"
  have first: "bio_segments (bv_len bvec) [bvec] = [bvec]"
    using assms(2) by simp
  show "ssr_request a b st = ssr_request a (b\<lparr>bi_size := bv_len bvec, bi_io_vec := [bvec]\<rparr>) st"
    using assms(1) ok q first
    by (simp add: ssr_request_def run_work_def ssr_submit_bio_def Let_def bio_endio_def
        queue_work_def bio_alloc_def bio_add_page_def ssr_handle_requests_def process_device_def
        bio_data_dir_def del: bio_segments.simps)
next
  assume "\<not> data_bio_alloc a \<or> \<not> crc32_bio_alloc a \<or> data_page_alloc a = None \<or>
       (crc32_page_alloc a \<noteq> None \<and> \<not> ssrwork_alloc a)"
  then show "ssr_submit_bio a b st = Returned BLK_STS_RESOURCE (bio_endio b st)"
    using assms(1) by (auto simp add: ssr_submit_bio_def Let_def split: option.split)
qed

text \<open>
  Claim C9 as amended, at a write of two segments: once with all allocations succeeding,
  once with no page from the first \<open>alloc_page\<close>.
\<close>

theorem only_the_first_segment_is_submitted_witness:
  "bio_segments (bi_size (two_segment_bio REQ_OP_WRITE 0)) (bi_io_vec (two_segment_bio REQ_OP_WRITE 0)) =
     \<lparr>bv_page = 1, bv_len = 512, bv_offset = 0\<rparr> # [\<lparr>bv_page = 2, bv_len = 512, bv_offset = 0\<rparr>] \<and>
   ssr_wq blank = [] \<and> 0 < bi_vcnt (two_segment_bio REQ_OP_WRITE 0) \<and>
   0 < bv_len \<lparr>bv_page = 1, bv_len = 512, bv_offset = 0\<rparr> \<and>
   ssr_submit_bio (allocs_ok 3 4) (two_segment_bio REQ_OP_WRITE 0) blank =
     Returned BLK_QC_T_NONE
      (queue_work
        \<lparr>buffer_from_up = (1, 0),
         bio_from_up = two_segment_bio REQ_OP_WRITE 0,
         data_bio_from_down =
           \<lparr>bi_disk = None, bi_opf = REQ_OP_WRITE, bi_status = BLK_STS_OK, bi_sector = 0,
            bi_size = 512, bi_vcnt = 1, bi_max_vecs = 2,
            bi_io_vec = [\<lparr>bv_page = 3, bv_len = 512, bv_offset = 0\<rparr>]\<rparr>,
         crc32_bio_from_down =
           \<lparr>bi_disk = None, bi_opf = REQ_OP_WRITE, bi_status = BLK_STS_OK, bi_sector = 0,
            bi_size = 512, bi_vcnt = 1, bi_max_vecs = 2,
            bi_io_vec = [\<lparr>bv_page = 4, bv_len = 512, bv_offset = 0\<rparr>]\<rparr>\<rparr> blank) \<and>
   ssr_request (allocs_ok 3 4) (two_segment_bio REQ_OP_WRITE 0) blank =
     ssr_request (allocs_ok 3 4)
       ((two_segment_bio REQ_OP_WRITE 0)
          \<lparr>bi_size := 512, bi_io_vec := [\<lparr>bv_page = 1, bv_len = 512, bv_offset = 0\<rparr>]\<rparr>) blank \<and>
   data_page_alloc allocs_no_page = None \<and>
   ssr_submit_bio allocs_no_page (two_segment_bio REQ_OP_WRITE 0) blank =
     Returned BLK_STS_RESOURCE (bio_endio (two_segment_bio REQ_OP_WRITE 0) blank)"
proof -
  have h: "bio_segments (bi_size (two_segment_bio REQ_OP_WRITE 0)) (bi_io_vec (two_segment_bio REQ_OP_WRITE 0)) =
     \<lparr>bv_page = 1, bv_len = 512, bv_offset = 0\<rparr> # [\<lparr>bv_page = 2, bv_len = 512, bv_offset = 0\<rparr>]"
    by (simp add: two_segment_bio_def)
  have q: "ssr_wq blank = []" by (simp add: blank_def)
  have v: "0 < bi_vcnt (two_segment_bio REQ_OP_WRITE 0)" by (simp add: two_segment_bio_def)
  have n: "data_page_alloc allocs_no_page = None" by (simp add: allocs_no_page_def)
  have l: "0 < bv_len \<lparr>bv_page = 1, bv_len = 512, bv_offset = 0\<rparr>" by simp
  from only_the_first_segment_is_submitted [OF h l, of "allocs_ok 3 4" 3 4 blank]
    only_the_first_segment_is_submitted [OF h l, of allocs_no_page 0 0 blank] h q v n
  show ?thesis
    by (simp add: allocs_ok_def two_segment_bio_def bio_data_dir_def REQ_OP_WRITE_def)
qed

end
